theory Spec2Isabelle
  imports Complex_Main
begin

section \<open>Numbers\<close>

text \<open>
  A number of \<^verbatim>\<open>DrawTarget.ts\<close> is a JavaScript number: a finite binary64 value, one of
  the two infinities, or NaN. \<open>Fin x\<close> is the finite number of value \<open>x\<close>. The two zeros
  of binary64 are one number here; in this file the sign of a zero can only show in the
  sign of an infinite quotient, which is not a finite number either way.
\<close>

datatype number = Fin real | PosInf | NegInf | NaN

text \<open>
  Rounding to binary64, to nearest with ties to even. \<open>binade x\<close> is the exponent \<open>e\<close>
  with \<open>2^e \<le> |x| < 2^(e+1)\<close>, found by halving or doubling; a finite number is a
  multiple of \<open>2^(e - 52)\<close>, where \<open>e\<close> is at least \<open>-1022\<close> (below that the numbers
  are subnormal); a rounded value of magnitude \<open>2^1024\<close> or more overflows to an
  infinity.
\<close>

function halvings :: "real \<Rightarrow> int" where
  "halvings x = (if 2 \<le> x then halvings (x / 2) + 1 else 0)"
  by pat_completeness auto
termination
  by (relation "measure (\<lambda>x. nat \<lceil>x\<rceil>)") (auto, linarith)

function doublings :: "real \<Rightarrow> int" where
  "doublings x = (if 0 < x \<and> x < 1 then doublings (2 * x) + 1 else 0)"
  by pat_completeness auto
termination
proof (relation "measure (\<lambda>x. nat \<lceil>1 / x\<rceil>)")
  show "wf (measure (\<lambda>x. nat \<lceil>1 / x\<rceil>))" by simp
next
  fix x :: real
  assume a: "0 < x \<and> x < 1"
  define y where "y = 1 / x"
  have y1: "1 < y" using a by (simp add: y_def)
  have c1: "y \<le> of_int \<lceil>y\<rceil>" by (rule le_of_int_ceiling)
  have "(1::int) < \<lceil>y\<rceil>" using y1 by (simp add: less_ceiling_iff)
  then have "(2::int) \<le> \<lceil>y\<rceil>" by simp
  then have "(of_int 2 :: real) \<le> of_int \<lceil>y\<rceil>" by (simp only: of_int_le_iff)
  then have c3: "(2::real) \<le> of_int \<lceil>y\<rceil>" by simp
  have "y / 2 \<le> of_int \<lceil>y\<rceil> - 1" using c1 c3 by linarith
  then have "y / 2 \<le> of_int (\<lceil>y\<rceil> - 1)" by simp
  then have "\<lceil>y / 2\<rceil> \<le> \<lceil>y\<rceil> - 1" by (rule ceiling_le)
  then have "\<lceil>y / 2\<rceil> < \<lceil>y\<rceil>" by linarith
  moreover have "1 / (2 * x) = y / 2" by (simp add: y_def)
  ultimately have lt: "\<lceil>1 / (2 * x)\<rceil> < \<lceil>1 / x\<rceil>" by (simp only: y_def)
  have "(0::int) < \<lceil>y\<rceil>" using y1 by (simp add: less_ceiling_iff)
  then have pos: "0 < \<lceil>1 / x\<rceil>" by (simp only: y_def)
  from lt pos have "nat \<lceil>1 / (2 * x)\<rceil> < nat \<lceil>1 / x\<rceil>" by linarith
  then show "(2 * x, x) \<in> measure (\<lambda>x. nat \<lceil>1 / x\<rceil>)"
    by (simp only: in_measure)
qed

declare halvings.simps [simp del] doublings.simps [simp del]

definition binade :: "real \<Rightarrow> int" where
  "binade x = (if 1 \<le> \<bar>x\<bar> then halvings \<bar>x\<bar> else - doublings \<bar>x\<bar>)"

definition pow2 :: "int \<Rightarrow> real" where
  "pow2 k = (if 0 \<le> k then 2 ^ nat k else 1 / 2 ^ nat (- k))"

definition round_half_even :: "real \<Rightarrow> int" where
  "round_half_even y =
     (let f = \<lfloor>y\<rfloor>; d = y - of_int f
      in if d < 1 / 2 then f else if 1 / 2 < d then f + 1 else if even f then f else f + 1)"

definition rnd :: "real \<Rightarrow> number" where
  "rnd x =
     (let q = pow2 (max (binade x) (- 1022) - 52);
          r = of_int (round_half_even (x / q)) * q
      in if 2 ^ 1024 \<le> r then PosInf else if r \<le> - (2 ^ 1024) then NegInf else Fin r)"

text \<open>JavaScript's \<^verbatim>\<open>a - b\<close> and \<^verbatim>\<open>a / b\<close>.\<close>

fun number_sub :: "number \<Rightarrow> number \<Rightarrow> number" where
  "number_sub NaN b = NaN"
| "number_sub a NaN = NaN"
| "number_sub (Fin x) (Fin y) = rnd (x - y)"
| "number_sub (Fin x) PosInf = NegInf"
| "number_sub (Fin x) NegInf = PosInf"
| "number_sub PosInf PosInf = NaN"
| "number_sub PosInf b = PosInf"
| "number_sub NegInf NegInf = NaN"
| "number_sub NegInf b = NegInf"

fun number_div :: "number \<Rightarrow> number \<Rightarrow> number" where
  "number_div NaN b = NaN"
| "number_div a NaN = NaN"
| "number_div (Fin x) (Fin y) =
     (if y = 0 then (if x = 0 then NaN else if 0 < x then PosInf else NegInf)
      else rnd (x / y))"
| "number_div (Fin x) b = Fin 0"
| "number_div PosInf (Fin y) = (if 0 \<le> y then PosInf else NegInf)"
| "number_div NegInf (Fin y) = (if 0 \<le> y then NegInf else PosInf)"
| "number_div a b = NaN"

text \<open>The value of a number that is finite.\<close>

definition finite_number :: "number \<Rightarrow> real option" where
  "finite_number a = (case a of Fin x \<Rightarrow> Some x | _ \<Rightarrow> None)"

text \<open>
  \<^verbatim>\<open>Math.floor\<close>, \<^verbatim>\<open>Math.ceil\<close>, \<^verbatim>\<open>a < b\<close>, \<^verbatim>\<open>a <= b\<close>, \<^verbatim>\<open>Math.max\<close> and
  \<^verbatim>\<open>Math.min\<close>: none of them rounds; a comparison with NaN is false, and the
  maximum or minimum with NaN is NaN.
\<close>

fun number_floor :: "number \<Rightarrow> number" where
  "number_floor (Fin x) = Fin (of_int \<lfloor>x\<rfloor>)"
| "number_floor a = a"

fun number_ceil :: "number \<Rightarrow> number" where
  "number_ceil (Fin x) = Fin (of_int \<lceil>x\<rceil>)"
| "number_ceil a = a"

fun number_less :: "number \<Rightarrow> number \<Rightarrow> bool" where
  "number_less (Fin x) (Fin y) = (x < y)"
| "number_less (Fin x) PosInf = True"
| "number_less NegInf (Fin y) = True"
| "number_less NegInf PosInf = True"
| "number_less a b = False"

fun number_le :: "number \<Rightarrow> number \<Rightarrow> bool" where
  "number_le NaN b = False"
| "number_le a NaN = False"
| "number_le (Fin x) (Fin y) = (x \<le> y)"
| "number_le NegInf b = True"
| "number_le a PosInf = True"
| "number_le a b = False"

definition number_max :: "number \<Rightarrow> number \<Rightarrow> number" where
  "number_max a b = (if a = NaN \<or> b = NaN then NaN else if number_less a b then b else a)"

definition number_min :: "number \<Rightarrow> number \<Rightarrow> number" where
  "number_min a b = (if a = NaN \<or> b = NaN then NaN else if number_less b a then b else a)"

section \<open>The geometry library (paintvec)\<close>

text \<open>
  Modelled from the spec: \<^verbatim>\<open>Vec2\<close> of the imported library paintvec, which is not among
  the sources. A pair of components; \<^verbatim>\<open>width\<close> and \<^verbatim>\<open>height\<close> read the same two
  components as \<^verbatim>\<open>x\<close> and \<^verbatim>\<open>y\<close> (a 2D extent). \<^verbatim>\<open>new Vec2()\<close> is the zero extent and
  \<^verbatim>\<open>new Vec2(c)\<close> has both components \<open>c\<close> (the spec's \<^verbatim>\<open>Translate(-1,-1)\<close> for
  \<^verbatim>\<open>new Vec2(-1)\<close>). The components of the vectors of the geometry are numbers; those
  of the points and vectors that meet a transform are real.
\<close>

datatype 'a Vec2 = Vec2 (Vec2_x: 'a) (Vec2_y: 'a)

definition Vec2_width :: "'a Vec2 \<Rightarrow> 'a" where
  "Vec2_width v = Vec2_x v"

definition Vec2_height :: "'a Vec2 \<Rightarrow> 'a" where
  "Vec2_height v = Vec2_y v"

text \<open>
  Modelled from the spec: the rounding of both components down and up, which
  \<^verbatim>\<open>intBounding\<close> needs to round "to integer pixel bounds".
\<close>

definition Vec2_floor :: "number Vec2 \<Rightarrow> number Vec2" where
  "Vec2_floor v = Vec2 (number_floor (Vec2_x v)) (number_floor (Vec2_y v))"

definition Vec2_ceil :: "number Vec2 \<Rightarrow> number Vec2" where
  "Vec2_ceil v = Vec2 (number_ceil (Vec2_x v)) (number_ceil (Vec2_y v))"

text \<open>
  Modelled from the spec: \<^verbatim>\<open>Rect\<close> of paintvec, an axis-aligned rectangle. The source
  builds it from its top-left and bottom-right corners
  (\<^verbatim>\<open>new Rect(new Vec2(left, top), new Vec2(right, bottom))\<close>) and reads
  \<^verbatim>\<open>left\<close>, \<^verbatim>\<open>top\<close>, \<^verbatim>\<open>right\<close>, \<^verbatim>\<open>bottom\<close>, \<^verbatim>\<open>width\<close>, \<^verbatim>\<open>height\<close>; the last two
  are differences of numbers, and round as such.
\<close>

datatype Rect = Rect (topLeft: "number Vec2") (bottomRight: "number Vec2")

definition Rect_left :: "Rect \<Rightarrow> number" where
  "Rect_left r = Vec2_x (topLeft r)"

definition Rect_top :: "Rect \<Rightarrow> number" where
  "Rect_top r = Vec2_y (topLeft r)"

definition Rect_right :: "Rect \<Rightarrow> number" where
  "Rect_right r = Vec2_x (bottomRight r)"

definition Rect_bottom :: "Rect \<Rightarrow> number" where
  "Rect_bottom r = Vec2_y (bottomRight r)"

definition Rect_width :: "Rect \<Rightarrow> number" where
  "Rect_width r = number_sub (Rect_right r) (Rect_left r)"

definition Rect_height :: "Rect \<Rightarrow> number" where
  "Rect_height r = number_sub (Rect_bottom r) (Rect_top r)"

text \<open>
  Modelled from the spec: \<^verbatim>\<open>Rect.intBounding\<close> of paintvec, "rounds it to integer pixel
  bounds": the smallest rectangle with integer corners that contains the rectangle.
\<close>

definition intBounding :: "Rect \<Rightarrow> Rect" where
  "intBounding r = Rect (Vec2_floor (topLeft r)) (Vec2_ceil (bottomRight r))"

text \<open>
  Modelled from the spec: \<^verbatim>\<open>Rect.intersection\<close> of paintvec, which returns the common
  rectangle of two rectangles "if the intersection is non-empty" and \<^verbatim>\<open>undefined\<close>
  "if empty" (the source tests the result with \<^verbatim>\<open>if (rect)\<close>).
\<close>

definition intersection :: "Rect \<Rightarrow> Rect \<Rightarrow> Rect option" where
  "intersection a b =
     (let left = number_max (Rect_left a) (Rect_left b);
          top = number_max (Rect_top a) (Rect_top b);
          right = number_min (Rect_right a) (Rect_right b);
          bottom = number_min (Rect_bottom a) (Rect_bottom b)
      in if number_less left right \<and> number_less top bottom
         then Some (Rect (Vec2 left top) (Vec2 right bottom))
         else None)"

text \<open>
  Modelled from the spec: \<^verbatim>\<open>Transform\<close> of paintvec, "an affine transform": a linear
  part \<open>m11 m12 m21 m22\<close> and a translation \<open>dx dy\<close> with real entries, acting on a
  point as a row vector and composed as affine maps are. \<^verbatim>\<open>new Transform()\<close> is the
  identity. \<^verbatim>\<open>a.merge(b)\<close> is the transform that applies \<open>a\<close> and then \<open>b\<close>: only so
  does the chain \<^verbatim>\<open>.merge(scale(2/width, 2/height)).merge(translate(-1,-1))\<close> of
  \<^verbatim>\<open>draw\<close> normalise pixels, as the spec says it does.
\<close>

datatype Transform =
  Transform (m11: real) (m12: real) (m21: real) (m22: real) (dx: real) (dy: real)

text \<open>
  Modelled from the spec: \<^verbatim>\<open>new Transform()\<close>, \<^verbatim>\<open>Transform.scale\<close>,
  \<^verbatim>\<open>Transform.translate\<close> and \<^verbatim>\<open>merge\<close> of paintvec (the spec's \<^verbatim>\<open>Identity\<close>,
  \<^verbatim>\<open>Scale\<close>, \<^verbatim>\<open>Translate\<close> and composition), and the image of a point under a
  transform.
\<close>

definition Transform_identity :: Transform where
  "Transform_identity = Transform 1 0 0 1 0 0"

definition Transform_scale :: "real Vec2 \<Rightarrow> Transform" where
  "Transform_scale s = Transform (Vec2_x s) 0 0 (Vec2_y s) 0 0"

definition Transform_translate :: "real Vec2 \<Rightarrow> Transform" where
  "Transform_translate d = Transform 1 0 0 1 (Vec2_x d) (Vec2_y d)"

definition merge :: "Transform \<Rightarrow> Transform \<Rightarrow> Transform" where
  "merge a b = Transform
     (m11 a * m11 b + m12 a * m21 b)
     (m11 a * m12 b + m12 a * m22 b)
     (m21 a * m11 b + m22 a * m21 b)
     (m21 a * m12 b + m22 a * m22 b)
     (dx a * m11 b + dy a * m21 b + dx b)
     (dx a * m12 b + dy a * m22 b + dy b)"

definition Vec2_transform :: "real Vec2 \<Rightarrow> Transform \<Rightarrow> real Vec2" where
  "Vec2_transform p t = Vec2
     (Vec2_x p * m11 t + Vec2_y p * m21 t + dx t)
     (Vec2_x p * m12 t + Vec2_y p * m22 t + dy t)"

section \<open>The collaborators: colour, texture, device and context\<close>

text \<open>
  Pixel types and formats are the strings the source writes (\<^verbatim>\<open>"byte"\<close>, \<^verbatim>\<open>"rgba"\<close>);
  device handles and the destination buffer of a readback are opaque, told apart by a
  number.
\<close>

type_synonym PixelType = string
type_synonym PixelFormat = string
type_synonym WebGLFramebuffer = nat
type_synonym WebGLTexture = nat
type_synonym ArrayBufferView = nat

text \<open>
  Modelled from the spec: the colour value of \<^verbatim>\<open>Color.ts\<close>, which is not among the
  sources: "four numeric channel components".
\<close>

datatype Color = Color (Color_r: number) (Color_g: number) (Color_b: number) (Color_a: number)

text \<open>
  Modelled from the spec: the pixel-buffer resource \<^verbatim>\<open>Texture\<close> (\<^verbatim>\<open>Texture.ts\<close> is not
  among the sources), which "exposes size (extent), pixelType, pixelFormat, and an
  opaque native storage handle".
\<close>

datatype Texture = Texture
  (Texture_size: "number Vec2") (Texture_pixelType: PixelType) (Texture_pixelFormat: PixelFormat)
  (Texture_texture: WebGLTexture)

text \<open>
  The device \<^verbatim>\<open>gl\<close> is an opaque service. The model records the calls the source
  issues on it, with their arguments, in the order they are issued. The GL constants
  \<^verbatim>\<open>glFormat(gl, f)\<close> and \<^verbatim>\<open>glType(context, t)\<close> come from \<^verbatim>\<open>Texture.ts\<close>; the record
  of \<^verbatim>\<open>gl.readPixels\<close> keeps their arguments \<open>f\<close> and \<open>t\<close>.
\<close>

datatype gl_enum = SCISSOR_TEST | FRAMEBUFFER | COLOR_ATTACHMENT0 | TEXTURE_2D | COLOR_BUFFER_BIT

datatype gl_call =
    gl_enable gl_enum
  | gl_disable gl_enum
  | gl_scissor number number number number
  | gl_viewport number number number number
  | gl_bindFramebuffer gl_enum "WebGLFramebuffer option"
  | gl_framebufferTexture2D gl_enum gl_enum gl_enum WebGLTexture nat
  | gl_createFramebuffer WebGLFramebuffer
  | gl_deleteFramebuffer WebGLFramebuffer
  | gl_clearColor number number number number
  | gl_clear gl_enum
  | gl_readPixels number number number number PixelFormat PixelType ArrayBufferView

text \<open>
  Modelled from the spec: the display surface, of which the source reads \<^verbatim>\<open>width\<close> and
  \<^verbatim>\<open>height\<close>, a number of pixels each.
\<close>

datatype Canvas = Canvas (Canvas_width: nat) (Canvas_height: nat)

text \<open>
  Modelled from the spec: the \<^verbatim>\<open>Context\<close> of \<^verbatim>\<open>Context.ts\<close>, which is not among the
  sources; the source reads its \<^verbatim>\<open>canvas\<close> (the display surface, with a width and a
  height) and its device \<^verbatim>\<open>gl\<close>. Every target holds a reference to one shared, mutable
  context. The model passes the context to each method and returns it updated; \<open>gl\<close>
  is the list of calls issued on the device so far.
\<close>

record Context =
  canvas :: Canvas
  gl :: "gl_call list"

definition issue :: "gl_call list \<Rightarrow> Context \<Rightarrow> Context" where
  "issue cs ctx = ctx\<lparr>gl := gl ctx @ cs\<rparr>"

section \<open>The draw targets\<close>

text \<open>
  The fields of the abstract class, and of its two subclasses as record extensions.
  \<open>texture\<close> is the private field \<^verbatim>\<open>_texture\<close> behind the accessor pair.
\<close>

record DrawTarget =
  scissor :: "Rect option"
  flipY :: bool
  transform :: Transform

record CanvasDrawTarget = DrawTarget +
  pixelType :: PixelType
  pixelFormat :: PixelFormat

record TextureDrawTarget = DrawTarget +
  framebuffer :: WebGLFramebuffer
  texture :: "Texture option"

text \<open>An instance of the abstract class is an instance of one of the two subclasses.\<close>

datatype target = OfCanvas CanvasDrawTarget | OfTexture TextureDrawTarget

definition fields :: "target \<Rightarrow> DrawTarget" where
  "fields t = (case t of OfCanvas c \<Rightarrow> DrawTarget.truncate c
                       | OfTexture x \<Rightarrow> DrawTarget.truncate x)"

subsection \<open>CanvasDrawTarget\<close>

definition CanvasDrawTarget_new :: CanvasDrawTarget where
  "CanvasDrawTarget_new =
     \<lparr>scissor = None, flipY = True, transform = Transform_identity,
      pixelType = ''byte'', pixelFormat = ''rgba''\<rparr>"

definition CanvasDrawTarget_size :: "Context \<Rightarrow> number Vec2" where
  "CanvasDrawTarget_size ctx =
     Vec2 (Fin (real (Canvas_width (canvas ctx)))) (Fin (real (Canvas_height (canvas ctx))))"

subsection \<open>TextureDrawTarget\<close>

text \<open>
  The setter of \<^verbatim>\<open>texture\<close>: the device calls are guarded by \<^verbatim>\<open>if (texture)\<close>, the
  assignment to the field is not.
\<close>

definition set_texture ::
  "TextureDrawTarget \<Rightarrow> Texture option \<Rightarrow> Context \<Rightarrow> TextureDrawTarget \<times> Context" where
  "set_texture t tex ctx =
     (let ctx' = (case tex of
                    Some tx \<Rightarrow>
                      issue [gl_bindFramebuffer FRAMEBUFFER (Some (framebuffer t)),
                             gl_framebufferTexture2D FRAMEBUFFER COLOR_ATTACHMENT0 TEXTURE_2D
                               (Texture_texture tx) 0] ctx
                  | None \<Rightarrow> ctx)
      in (t\<lparr>texture := tex\<rparr>, ctx'))"

text \<open>
  The constructor; \<open>fb\<close> is the handle that \<^verbatim>\<open>gl.createFramebuffer()\<close> returns.
\<close>

definition TextureDrawTarget_new ::
  "WebGLFramebuffer \<Rightarrow> Texture option \<Rightarrow> Context \<Rightarrow> TextureDrawTarget \<times> Context" where
  "TextureDrawTarget_new fb tex ctx =
     set_texture
       \<lparr>scissor = None, flipY = False, transform = Transform_identity,
        framebuffer = fb, texture = None\<rparr>
       tex (issue [gl_createFramebuffer fb] ctx)"

definition TextureDrawTarget_size :: "TextureDrawTarget \<Rightarrow> number Vec2" where
  "TextureDrawTarget_size t =
     (case texture t of Some tx \<Rightarrow> Texture_size tx | None \<Rightarrow> Vec2 (Fin 0) (Fin 0))"

definition TextureDrawTarget_pixelType :: "TextureDrawTarget \<Rightarrow> PixelType" where
  "TextureDrawTarget_pixelType t =
     (case texture t of Some tx \<Rightarrow> Texture_pixelType tx | None \<Rightarrow> ''byte'')"

definition TextureDrawTarget_pixelFormat :: "TextureDrawTarget \<Rightarrow> PixelFormat" where
  "TextureDrawTarget_pixelFormat t =
     (case texture t of Some tx \<Rightarrow> Texture_pixelFormat tx | None \<Rightarrow> ''rgba'')"

definition TextureDrawTarget_dispose :: "TextureDrawTarget \<Rightarrow> Context \<Rightarrow> Context" where
  "TextureDrawTarget_dispose t ctx = issue [gl_deleteFramebuffer (framebuffer t)] ctx"

subsection \<open>DrawTarget\<close>

text \<open>The abstract properties, dispatched to the subclass.\<close>

definition size_of :: "target \<Rightarrow> Context \<Rightarrow> number Vec2" where
  "size_of t ctx = (case t of OfCanvas c \<Rightarrow> CanvasDrawTarget_size ctx
                            | OfTexture x \<Rightarrow> TextureDrawTarget_size x)"

definition pixelType_of :: "target \<Rightarrow> PixelType" where
  "pixelType_of t = (case t of OfCanvas c \<Rightarrow> pixelType c
                             | OfTexture x \<Rightarrow> TextureDrawTarget_pixelType x)"

definition pixelFormat_of :: "target \<Rightarrow> PixelFormat" where
  "pixelFormat_of t = (case t of OfCanvas c \<Rightarrow> pixelFormat c
                               | OfTexture x \<Rightarrow> TextureDrawTarget_pixelFormat x)"

text \<open>
  \<^verbatim>\<open>_flipRect\<close>. The two subtractions from the height are JavaScript's: each result
  is rounded to binary64.
\<close>

definition flipRect :: "target \<Rightarrow> Context \<Rightarrow> Rect \<Rightarrow> Rect" where
  "flipRect t ctx rect =
     (if flipY (fields t) then
        (let left = Rect_left rect; right = Rect_right rect;
             top = number_sub (Vec2_height (size_of t ctx)) (Rect_bottom rect);
             bottom = number_sub (Vec2_height (size_of t ctx)) (Rect_top rect)
         in Rect (Vec2 left top) (Vec2 right bottom))
      else rect)"

text \<open>\<^verbatim>\<open>DrawTarget.use\<close>, the method of the base class.\<close>

definition DrawTarget_use :: "target \<Rightarrow> Context \<Rightarrow> Context" where
  "DrawTarget_use t ctx =
     (let ctx1 =
        (case scissor (fields t) of
           Some sc \<Rightarrow>
             (let ctx' = issue [gl_enable SCISSOR_TEST] ctx;
                  drawableRect = Rect (Vec2 (Fin 0) (Fin 0)) (size_of t ctx')
              in case intersection (intBounding (flipRect t ctx' sc)) drawableRect of
                   Some rect \<Rightarrow>
                     issue [gl_scissor (Rect_left rect) (Rect_top rect)
                              (Rect_width rect) (Rect_height rect)] ctx'
                 | None \<Rightarrow> issue [gl_scissor (Fin 0) (Fin 0) (Fin 0) (Fin 0)] ctx')
         | None \<Rightarrow> issue [gl_disable SCISSOR_TEST] ctx)
      in issue [gl_viewport (Fin 0) (Fin 0) (Vec2_x (size_of t ctx1)) (Vec2_y (size_of t ctx1))] ctx1)"

text \<open>\<^verbatim>\<open>use\<close> as the subclasses override it: bind the destination, then the base method.\<close>

definition use :: "target \<Rightarrow> Context \<Rightarrow> Context" where
  "use t ctx =
     (case t of
        OfCanvas c \<Rightarrow> DrawTarget_use t (issue [gl_bindFramebuffer FRAMEBUFFER None] ctx)
      | OfTexture x \<Rightarrow>
          DrawTarget_use t (issue [gl_bindFramebuffer FRAMEBUFFER (Some (framebuffer x))] ctx))"

text \<open>
  The local variable \<^verbatim>\<open>transform\<close> of \<^verbatim>\<open>draw\<close>, as it is handed to the model. The
  scale factors are the quotients \<^verbatim>\<open>2 / size.width\<close> and \<^verbatim>\<open>2 / size.height\<close> as
  JavaScript computes them; \<open>None\<close> stands for the transform when one of them is not a
  finite number (no entry of the product with it is finite then).
\<close>

definition draw_transform :: "target \<Rightarrow> Context \<Rightarrow> Transform option" where
  "draw_transform t ctx =
     (let size = size_of t ctx in
      case (finite_number (number_div (Fin 2) (Vec2_width size)),
            finite_number (number_div (Fin 2) (Vec2_height size))) of
        (Some sx, Some sy) \<Rightarrow>
          (let tr = merge (merge (transform (fields t)) (Transform_scale (Vec2 sx sy)))
                      (Transform_translate (Vec2 (- 1) (- 1)))
           in Some (if flipY (fields t) then merge tr (Transform_scale (Vec2 1 (- 1))) else tr))
      | _ \<Rightarrow> None)"

text \<open>
  \<^verbatim>\<open>draw\<close>. The model collaborator is its \<^verbatim>\<open>draw\<close> method: what it does to the context
  under the transform it is given.
\<close>

definition draw :: "target \<Rightarrow> (Transform option \<Rightarrow> Context \<Rightarrow> Context) \<Rightarrow> Context \<Rightarrow> Context" where
  "draw t model ctx = (let ctx' = use t ctx in model (draw_transform t ctx') ctx')"

definition clear :: "target \<Rightarrow> Color \<Rightarrow> Context \<Rightarrow> Context" where
  "clear t color ctx =
     issue [gl_clearColor (Color_r color) (Color_g color) (Color_b color) (Color_a color),
            gl_clear COLOR_BUFFER_BIT] (use t ctx)"

text \<open>
  The options of \<^verbatim>\<open>readPixels\<close>, and JavaScript's \<^verbatim>\<open>a || b\<close> on an optional string:
  \<^verbatim>\<open>undefined\<close> and the empty string select \<open>b\<close>.
\<close>

datatype ReadPixelsOpts = ReadPixelsOpts (opts_format: "PixelFormat option") (opts_type: "PixelType option")

definition or_default :: "string option \<Rightarrow> string \<Rightarrow> string" where
  "or_default a b = (case a of Some s \<Rightarrow> (if s = [] then b else s) | None \<Rightarrow> b)"

definition readPixels :: "target \<Rightarrow> Rect \<Rightarrow> ArrayBufferView \<Rightarrow> ReadPixelsOpts \<Rightarrow> Context \<Rightarrow> Context" where
  "readPixels t rect data opts ctx =
     (let ctx' = use t ctx; rect' = flipRect t ctx' rect
      in issue [gl_readPixels (Rect_left rect') (Rect_top rect') (Rect_width rect') (Rect_height rect')
                  (or_default (opts_format opts) (pixelFormat_of t))
                  (or_default (opts_type opts) (pixelType_of t)) data] ctx')"

text \<open>\<^verbatim>\<open>dispose\<close>: the base method does nothing; the texture target overrides it.\<close>

definition DrawTarget_dispose :: "Context \<Rightarrow> Context" where
  "DrawTarget_dispose ctx = ctx"

definition dispose :: "target \<Rightarrow> Context \<Rightarrow> Context" where
  "dispose t ctx = (case t of OfCanvas c \<Rightarrow> DrawTarget_dispose ctx
                            | OfTexture x \<Rightarrow> TextureDrawTarget_dispose x ctx)"

section \<open>Reading the device log\<close>

text \<open>
  The destination that each subclass binds in its \<^verbatim>\<open>use\<close>: \<^verbatim>\<open>null\<close> for the canvas,
  the framebuffer of a texture target.
\<close>

definition binding :: "target \<Rightarrow> WebGLFramebuffer option" where
  "binding t = (case t of OfCanvas c \<Rightarrow> None | OfTexture x \<Rightarrow> Some (framebuffer x))"

text \<open>
  The scissor box of the device after a sequence of calls: the arguments of the last
  \<^verbatim>\<open>gl.scissor\<close> among them, if there is one.
\<close>

fun scissor_box :: "gl_call list \<Rightarrow> (number \<times> number \<times> number \<times> number) option" where
  "scissor_box [] = None"
| "scissor_box (c # cs) =
     (case scissor_box cs of
        Some b \<Rightarrow> Some b
      | None \<Rightarrow> (case c of gl_scissor x y w h \<Rightarrow> Some (x, y, w, h) | _ \<Rightarrow> None))"

text \<open>
  The four numbers that \<^verbatim>\<open>use\<close> hands to \<^verbatim>\<open>gl.scissor\<close> for the result of the
  intersection: left, top, width and height of the rectangle, or four zeros when there is
  none.
\<close>

definition mask_of :: "Rect option \<Rightarrow> number \<times> number \<times> number \<times> number" where
  "mask_of ro = (case ro of Some r \<Rightarrow> (Rect_left r, Rect_top r, Rect_width r, Rect_height r)
                  | None \<Rightarrow> (Fin 0, Fin 0, Fin 0, Fin 0))"

text \<open>The points a rectangle covers; half-open, as pixel coverage is.\<close>

definition Rect_points :: "Rect \<Rightarrow> (real \<times> real) set" where
  "Rect_points r =
     {(px, py). number_le (Rect_left r) (Fin px) \<and> number_less (Fin px) (Rect_right r)
              \<and> number_le (Rect_top r) (Fin py) \<and> number_less (Fin py) (Rect_bottom r)}"

section \<open>Basic facts\<close>

lemma gl_issue: "gl (issue cs ctx) = gl ctx @ cs"
  by (simp add: issue_def)

lemma canvas_issue: "canvas (issue cs ctx) = canvas ctx"
  by (simp add: issue_def)

lemma issue_issue: "issue bs (issue as ctx) = issue (as @ bs) ctx"
  by (simp add: issue_def)

text \<open>No method of a target changes the canvas, so sizes are stable under device calls.\<close>

lemma size_of_issue: "size_of t (issue cs ctx) = size_of t ctx"
  by (simp add: size_of_def CanvasDrawTarget_size_def canvas_issue split: target.split)

lemma flipRect_issue: "flipRect t (issue cs ctx) r = flipRect t ctx r"
  by (simp add: flipRect_def size_of_issue)

lemma canvas_use: "canvas (use t ctx) = canvas ctx"
  by (simp add: use_def DrawTarget_use_def Let_def canvas_issue split: target.split option.split)

lemma size_of_use: "size_of t' (use t ctx) = size_of t' ctx"
  by (simp add: size_of_def CanvasDrawTarget_size_def canvas_use split: target.split)

lemma flipRect_use: "flipRect t' (use t ctx) r = flipRect t' ctx r"
  by (simp add: flipRect_def size_of_use)

lemma draw_transform_use: "draw_transform t' (use t ctx) = draw_transform t' ctx"
  by (simp add: draw_transform_def size_of_use)

lemma scissor_box_append:
  "scissor_box (xs @ ys) = (case scissor_box ys of Some b \<Rightarrow> Some b | None \<Rightarrow> scissor_box xs)"
  by (induction xs) (auto split: option.split)

subsection \<open>Evaluating binary64 arithmetic\<close>

lemmas binary64_eval =
  rnd_def binade_def halvings.simps doublings.simps pow2_def round_half_even_def Let_def

lemma rnd_small_integers:
  "rnd 0 = Fin 0" "rnd 7 = Fin 7" "rnd 10 = Fin 10" "rnd 40 = Fin 40" "rnd 50 = Fin 50"
  "rnd 55 = Fin 55"
  by (simp_all add: binary64_eval)

text \<open>
  The rounding is what binary64 prescribes on the integers: \<open>halvings\<close> finds the binade
  of a number that is at least one, and every integer of magnitude at most \<open>2^53\<close> is a
  binary64 number, so that sums and differences of integers of magnitude at most \<open>2^52\<close>
  do not round.
\<close>

lemma halvings_bracket:
  "1 \<le> x \<Longrightarrow> 0 \<le> halvings x \<and> 2 ^ nat (halvings x) \<le> x \<and> x < 2 * 2 ^ nat (halvings x)"
proof (induction x rule: halvings.induct)
  case (1 x)
  show ?case
  proof (cases "2 \<le> x")
    case True
    then have "1 \<le> x / 2" by simp
    with 1 True have ih: "0 \<le> halvings (x / 2)" "2 ^ nat (halvings (x / 2)) \<le> x / 2"
        "x / 2 < 2 * 2 ^ nat (halvings (x / 2))" by auto
    have h: "halvings x = halvings (x / 2) + 1"
      using True by (subst halvings.simps) simp
    have n: "nat (halvings (x / 2) + 1) = Suc (nat (halvings (x / 2)))"
      using ih(1) by simp
    show ?thesis using ih by (simp add: h n)
  next
    case False
    then have "halvings x = 0" by (subst halvings.simps) simp
    with False 1(2) show ?thesis by simp
  qed
qed

lemma round_half_even_int: "round_half_even (of_int m) = m"
  by (simp add: round_half_even_def)

lemma rnd_integer:
  assumes "\<bar>n\<bar> \<le> 2 ^ 53"
  shows "rnd (of_int n) = Fin (of_int n)"
proof (cases "n = 0")
  case True
  then show ?thesis by (simp add: binary64_eval)
next
  case False
  let ?x = "\<bar>real_of_int n\<bar>"
  let ?e = "halvings ?x"
  have x1: "1 \<le> ?x" using False by (simp flip: of_int_abs)
  have xle: "?x \<le> 2 ^ 53" using assms by (simp flip: of_int_abs) 
  from halvings_bracket [OF x1]
  have e0: "0 \<le> ?e" and lo: "2 ^ nat ?e \<le> ?x" and hi: "?x < 2 * 2 ^ nat ?e" by auto
  have p: "(2::real) ^ nat ?e \<le> 2 ^ 53" using lo xle by linarith
  have "nat ?e \<le> 53" by (rule power_le_imp_le_exp [OF _ p]) simp
  then have e53: "?e \<le> 53" using e0 by linarith
  have b: "binade (of_int n) = ?e" using x1 by (simp add: binade_def)
  have small: "\<bar>real_of_int n\<bar> < 2 ^ 1024"
  proof -
    have "(2::real) ^ 53 < 2 ^ 1024" by simp
    with xle show ?thesis by linarith
  qed
  have r: "of_int (round_half_even (of_int n / pow2 (?e - 52))) * pow2 (?e - 52) = real_of_int n"
  proof (cases "?e \<le> 52")
    case True
    then have q: "pow2 (?e - 52) = 1 / 2 ^ nat (52 - ?e)"
      by (cases "?e = 52") (simp_all add: pow2_def)
    have "real_of_int n / pow2 (?e - 52) = of_int (n * 2 ^ nat (52 - ?e))"
      by (simp add: q)
    then show ?thesis
      by (simp only: round_half_even_int) (simp add: q)
  next
    case False
    with e53 have e: "?e = 53" by linarith
    then have "2 ^ 53 \<le> ?x" using lo by simp
    with xle have "?x = 2 ^ 53" by linarith
    then have "real_of_int \<bar>n\<bar> = real_of_int (2 ^ 53)" by simp
    then have "\<bar>n\<bar> = 2 ^ 53" by (simp only: of_int_eq_iff)
    then have nn: "n = 2 ^ 53 \<or> n = - (2 ^ 53)" by (auto simp: abs_if split: if_splits)
    have q: "pow2 (?e - 52) = 2" by (simp add: e pow2_def)
    from nn have "real_of_int n / 2 = of_int (n div 2) \<and> (n div 2) * 2 = n" by auto
    then show ?thesis
      by (simp only: q round_half_even_int) (metis of_int_mult of_int_numeral)
  qed
  show ?thesis
    using small e0 by (simp add: rnd_def Let_def b r abs_less_iff not_le)
qed

lemma flip_exact_on_integers:
  assumes "\<bar>h\<bar> \<le> 2 ^ 52" and "\<bar>a\<bar> \<le> 2 ^ 52"
  shows "rnd (of_int a) = Fin (of_int a)"
    and "rnd (of_int h - of_int a) = Fin (of_int h - of_int a)"
proof -
  have "(2::int) ^ 52 \<le> 2 ^ 53" by simp
  with assms(2) have "\<bar>a\<bar> \<le> 2 ^ 53" by linarith
  then show "rnd (of_int a) = Fin (of_int a)" by (rule rnd_integer)
  have "(2::int) ^ 53 = 2 ^ 52 + 2 ^ 52" by simp
  with assms have "\<bar>h - a\<bar> \<le> 2 ^ 53" by linarith
  then have "rnd (of_int (h - a)) = Fin (of_int (h - a))" by (rule rnd_integer)
  then show "rnd (of_int h - of_int a) = Fin (of_int h - of_int a)" by simp
qed

subsection \<open>The library model behaves as a geometry library should\<close>

text \<open>A merged transform applies its left operand first.\<close>

lemma Vec2_transform_merge:
  "Vec2_transform p (merge a b) = Vec2_transform (Vec2_transform p a) b"
  by (simp add: Vec2_transform_def merge_def algebra_simps)

lemma merge_identity: "merge a Transform_identity = a"
  by (simp add: merge_def Transform_identity_def)

text \<open>
  A point lies at or after both of two bounds when it lies at or after their maximum,
  and before both when before their minimum; a half-open interval has a point exactly
  when its lower bound is less than its upper bound. So \<open>intersection\<close> is \<open>None\<close>
  exactly when the two rectangles share no point.
\<close>

lemma number_le_max:
  "number_le (number_max a b) (Fin p) \<longleftrightarrow> number_le a (Fin p) \<and> number_le b (Fin p)"
  by (cases a; cases b) (auto simp: number_max_def)

lemma number_less_min:
  "number_less (Fin p) (number_min a b) \<longleftrightarrow> number_less (Fin p) a \<and> number_less (Fin p) b"
  by (cases a; cases b) (auto simp: number_min_def)

lemma interval_has_point:
  "(\<exists>p. number_le lo (Fin p) \<and> number_less (Fin p) hi) \<longleftrightarrow> number_less lo hi"
proof (cases lo)
  case (Fin x)
  show ?thesis
  proof (cases hi)
    case (Fin y)
    show ?thesis using \<open>lo = Fin x\<close> Fin by auto
  qed (use Fin in auto)
next
  case NegInf
  show ?thesis
  proof (cases hi)
    case (Fin y)
    have "y - 1 < y" by simp
    then have "\<exists>p. p < y" by (rule exI)
    then show ?thesis using NegInf Fin by simp
  qed (use NegInf in auto)
qed auto

lemma intersection_empty:
  "Rect_points a \<inter> Rect_points b = {} \<longleftrightarrow> intersection a b = None"
proof -
  let ?l = "number_max (Rect_left a) (Rect_left b)"
  let ?t = "number_max (Rect_top a) (Rect_top b)"
  let ?r = "number_min (Rect_right a) (Rect_right b)"
  let ?b = "number_min (Rect_bottom a) (Rect_bottom b)"
  have pts: "Rect_points a \<inter> Rect_points b =
      {(px, py). (number_le ?l (Fin px) \<and> number_less (Fin px) ?r)
               \<and> (number_le ?t (Fin py) \<and> number_less (Fin py) ?b)}"
    by (auto simp: Rect_points_def number_le_max number_less_min)
  have "Rect_points a \<inter> Rect_points b \<noteq> {} \<longleftrightarrow>
      (\<exists>px. number_le ?l (Fin px) \<and> number_less (Fin px) ?r)
      \<and> (\<exists>py. number_le ?t (Fin py) \<and> number_less (Fin py) ?b)"
    unfolding pts by auto
  also have "\<dots> \<longleftrightarrow> number_less ?l ?r \<and> number_less ?t ?b"
    by (simp only: interval_has_point)
  also have "\<dots> \<longleftrightarrow> intersection a b \<noteq> None"
    by (simp add: intersection_def Let_def)
  finally show ?thesis by blast
qed

subsection \<open>The calls of \<^verbatim>\<open>use\<close> when a scissor rectangle is set\<close>

lemma DrawTarget_use_scissor:
  assumes "scissor (fields t) = Some C"
  shows "DrawTarget_use t ctx =
     issue [gl_enable SCISSOR_TEST,
            (case mask_of (intersection (intBounding (flipRect t ctx C))
                             (Rect (Vec2 (Fin 0) (Fin 0)) (size_of t ctx))) of
               (x, y, w, h) \<Rightarrow> gl_scissor x y w h),
            gl_viewport (Fin 0) (Fin 0) (Vec2_x (size_of t ctx)) (Vec2_y (size_of t ctx))] ctx"
  by (simp add: assms DrawTarget_use_def Let_def size_of_issue flipRect_issue issue_issue
      mask_of_def split: option.split)

lemma use_bind:
  "use t ctx = DrawTarget_use t (issue [gl_bindFramebuffer FRAMEBUFFER (binding t)] ctx)"
  by (simp add: use_def binding_def split: target.split)

lemma use_scissor_calls:
  assumes "scissor (fields t) = Some C"
  shows "use t ctx =
     issue [gl_bindFramebuffer FRAMEBUFFER (binding t), gl_enable SCISSOR_TEST,
            (case mask_of (intersection (intBounding (flipRect t ctx C))
                             (Rect (Vec2 (Fin 0) (Fin 0)) (size_of t ctx))) of
               (x, y, w, h) \<Rightarrow> gl_scissor x y w h),
            gl_viewport (Fin 0) (Fin 0) (Vec2_x (size_of t ctx)) (Vec2_y (size_of t ctx))] ctx"
  by (simp add: use_bind DrawTarget_use_scissor [OF assms] size_of_issue flipRect_issue issue_issue)

lemma use_scissor_box:
  assumes "scissor (fields t) = Some C"
  shows "scissor_box (gl (use t ctx)) =
     Some (mask_of (intersection (intBounding (flipRect t ctx C))
                      (Rect (Vec2 (Fin 0) (Fin 0)) (size_of t ctx))))"
  by (simp add: use_scissor_calls [OF assms] gl_issue scissor_box_append split: prod.split)

subsection \<open>The transform of \<^verbatim>\<open>draw\<close>\<close>


lemma draw_transform_chain:
  "draw_transform t ctx =
     (case (finite_number (number_div (Fin 2) (Vec2_width (size_of t ctx))),
            finite_number (number_div (Fin 2) (Vec2_height (size_of t ctx)))) of
        (Some sx, Some sy) \<Rightarrow>
          Some (merge (merge (merge (transform (fields t)) (Transform_scale (Vec2 sx sy)))
                  (Transform_translate (Vec2 (- 1) (- 1))))
                  (if flipY (fields t) then Transform_scale (Vec2 1 (- 1)) else Transform_identity))
      | _ \<Rightarrow> None)"
  by (simp add: draw_transform_def Let_def merge_identity split: option.split)

lemma draw_transform_zero:
  assumes "Vec2_width (size_of t ctx) = Fin 0 \<or> Vec2_height (size_of t ctx) = Fin 0"
  shows "draw_transform t ctx = None"
  using assms by (auto simp: draw_transform_def finite_number_def Let_def split: option.split)

subsection \<open>What the flip keeps\<close>

lemma flipRect_sides:
  "Rect_left (flipRect t ctx R) = Rect_left R \<and> Rect_right (flipRect t ctx R) = Rect_right R"
  by (simp add: flipRect_def Let_def Rect_left_def Rect_right_def)

lemma flipRect_flipped:
  assumes "flipY (fields t)"
  shows "Rect_top (flipRect t ctx R) = number_sub (Vec2_height (size_of t ctx)) (Rect_bottom R)
       \<and> Rect_bottom (flipRect t ctx R) = number_sub (Vec2_height (size_of t ctx)) (Rect_top R)"
  using assms by (simp add: flipRect_def Let_def Rect_top_def Rect_bottom_def)

section \<open>The scissor rectangle set by \<^verbatim>\<open>use\<close>\<close>

text \<open>
  Claim C1. For every target whose scissor is set to a rectangle \<open>C\<close>, and whatever the
  device was told before, after \<^verbatim>\<open>use\<close> the scissor box of the device is the
  intersection of the integer bounding rectangle of the flipped \<open>C\<close> with the rectangle
  from \<open>(0, 0)\<close> to the size of the target, given by its left, top, width and height;
  when the two rectangles share no point the box is \<open>(0, 0, 0, 0)\<close>, not an earlier
  one. The flip, the width and the height are computed in binary64, as the code computes
  them.
\<close>

theorem use_scissor_mask:
  assumes "scissor (fields t) = Some C"
  shows "scissor_box (gl (use t ctx)) =
           Some (mask_of (intersection (intBounding (flipRect t ctx C))
                            (Rect (Vec2 (Fin 0) (Fin 0)) (size_of t ctx))))
       \<and> (Rect_points (intBounding (flipRect t ctx C))
            \<inter> Rect_points (Rect (Vec2 (Fin 0) (Fin 0)) (size_of t ctx)) = {}
            \<longrightarrow> scissor_box (gl (use t ctx)) = Some (Fin 0, Fin 0, Fin 0, Fin 0))"
  by (simp add: use_scissor_box [OF assms] intersection_empty mask_of_def)

text \<open>
  A canvas target of 100 by 50 pixels (vertical flip on), on a device whose scissor box
  was \<open>(1, 2, 3, 4)\<close>. With the scissor rectangle from \<open>(0, 0)\<close> to
  \<open>(10, 7.000000000000001)\<close>, the binary64 product of 0.07 and 100, the flipped top
  \<open>50 - 7.000000000000001\<close> rounds to 43 and the box becomes \<open>(0, 43, 10, 7)\<close>. With
  the rectangle from \<open>(0, -5)\<close> to \<open>(10, 2^-60)\<close> the flipped top rounds to 50, nothing
  is left inside the target and the box becomes \<open>(0, 0, 0, 0)\<close>.
\<close>

theorem use_scissor_mask_witness:
  "scissor_box (gl (use
       (OfCanvas (CanvasDrawTarget_new\<lparr>scissor :=
          Some (Rect (Vec2 (Fin 0) (Fin 0)) (Vec2 (Fin 10) (Fin (7881299347898369 / 2 ^ 50))))\<rparr>))
       \<lparr>canvas = Canvas 100 50, gl = [gl_scissor (Fin 1) (Fin 2) (Fin 3) (Fin 4)]\<rparr>))
     = Some (Fin 0, Fin 43, Fin 10, Fin 7)
   \<and> scissor_box (gl (use
       (OfCanvas (CanvasDrawTarget_new\<lparr>scissor :=
          Some (Rect (Vec2 (Fin 0) (Fin (- 5))) (Vec2 (Fin 10) (Fin (1 / 2 ^ 60))))\<rparr>))
       \<lparr>canvas = Canvas 100 50, gl = [gl_scissor (Fin 1) (Fin 2) (Fin 3) (Fin 4)]\<rparr>))
     = Some (Fin 0, Fin 0, Fin 0, Fin 0)"
  using use_scissor_mask [of
      "OfCanvas (CanvasDrawTarget_new\<lparr>scissor :=
          Some (Rect (Vec2 (Fin 0) (Fin 0)) (Vec2 (Fin 10) (Fin (7881299347898369 / 2 ^ 50))))\<rparr>)"
      "Rect (Vec2 (Fin 0) (Fin 0)) (Vec2 (Fin 10) (Fin (7881299347898369 / 2 ^ 50)))"
      "\<lparr>canvas = Canvas 100 50, gl = [gl_scissor (Fin 1) (Fin 2) (Fin 3) (Fin 4)]\<rparr>"]
    use_scissor_mask [of
      "OfCanvas (CanvasDrawTarget_new\<lparr>scissor :=
          Some (Rect (Vec2 (Fin 0) (Fin (- 5))) (Vec2 (Fin 10) (Fin (1 / 2 ^ 60))))\<rparr>)"
      "Rect (Vec2 (Fin 0) (Fin (- 5))) (Vec2 (Fin 10) (Fin (1 / 2 ^ 60)))"
      "\<lparr>canvas = Canvas 100 50, gl = [gl_scissor (Fin 1) (Fin 2) (Fin 3) (Fin 4)]\<rparr>"]
  by (simp add: fields_def DrawTarget.truncate_def CanvasDrawTarget_new_def TextureDrawTarget_new_def set_texture_def size_of_def CanvasDrawTarget_size_def TextureDrawTarget_size_def mask_of_def intersection_def intBounding_def flipRect_def Vec2_floor_def Vec2_ceil_def Vec2_height_def Vec2_width_def Rect_left_def Rect_top_def Rect_right_def Rect_bottom_def Rect_width_def Rect_height_def number_max_def number_min_def binary64_eval)

section \<open>The transform handed to the model by \<^verbatim>\<open>draw\<close>\<close>




text \<open>
  A texture target of size \<open>(4, 4)\<close> without flip whose global transform is the
  translation by \<open>(1, 0)\<close>. The transform given to the model sends the pixel \<open>(0, 0)\<close>
  to \<open>(-1/2, -1)\<close>: the translation acts first, on the pixel. Were the global transform
  applied last, after the normalisation, the pixel would go to \<open>(0, -1)\<close>; the transform
  of \<^verbatim>\<open>draw\<close> is not that composition.
\<close>

theorem draw_order_counterexample:
  "map_option (Vec2_transform (Vec2 0 0))
     (draw_transform
        (OfTexture \<lparr>scissor = None, flipY = False, transform = Transform_translate (Vec2 1 0),
                    framebuffer = 1, texture = Some (Texture (Vec2 (Fin 4) (Fin 4)) ''byte'' ''rgba'' 2)\<rparr>)
        (use (OfTexture \<lparr>scissor = None, flipY = False, transform = Transform_translate (Vec2 1 0),
                    framebuffer = 1, texture = Some (Texture (Vec2 (Fin 4) (Fin 4)) ''byte'' ''rgba'' 2)\<rparr>)
           \<lparr>canvas = Canvas 300 150, gl = []\<rparr>))
     = Some (Vec2 (- 1 / 2) (- 1))
   \<and> Vec2_transform (Vec2_transform (Vec2_transform (Vec2 0 0)
         (Transform_scale (Vec2 (2 / 4) (2 / 4)))) (Transform_translate (Vec2 (- 1) (- 1))))
         (Transform_translate (Vec2 1 0))
     = Vec2 0 (- 1)
   \<and> draw_transform
        (OfTexture \<lparr>scissor = None, flipY = False, transform = Transform_translate (Vec2 1 0),
                    framebuffer = 1, texture = Some (Texture (Vec2 (Fin 4) (Fin 4)) ''byte'' ''rgba'' 2)\<rparr>)
        (use (OfTexture \<lparr>scissor = None, flipY = False, transform = Transform_translate (Vec2 1 0),
                    framebuffer = 1, texture = Some (Texture (Vec2 (Fin 4) (Fin 4)) ''byte'' ''rgba'' 2)\<rparr>)
           \<lparr>canvas = Canvas 300 150, gl = []\<rparr>)
     \<noteq> Some (merge (merge (Transform_scale (Vec2 (2 / 4) (2 / 4)))
                        (Transform_translate (Vec2 (- 1) (- 1))))
                 (Transform_translate (Vec2 1 0)))"
  by (simp add: draw_transform_use draw_transform_def finite_number_def size_of_def
      TextureDrawTarget_size_def fields_def DrawTarget.truncate_def Vec2_width_def Vec2_height_def
      merge_def Transform_scale_def Transform_translate_def Vec2_transform_def binary64_eval)

text \<open>
  Claim C3, with the order of application as the code has it. For every target and every
  global transform, \<^verbatim>\<open>draw\<close> hands the model the transform obtained by merging, in this
  order, the global transform, the scale by \<open>(2/width, 2/height)\<close>, the translation by
  \<open>(-1, -1)\<close> and, when \<open>flipY\<close> is set, the scale by \<open>(1, -1)\<close>; the two scale factors
  are the quotients as JavaScript computes them, and the transform is not finite when the
  width or the height is zero, or a quotient is not finite otherwise. The global transform
  is innermost: on a point it acts first, then the normalisation, then the flip.
\<close>

theorem draw_order:
  "draw t model ctx = model (draw_transform t (use t ctx)) (use t ctx)
   \<and> draw_transform t (use t ctx) =
       (if Vec2_width (size_of t ctx) = Fin 0 \<or> Vec2_height (size_of t ctx) = Fin 0 then None
        else case (finite_number (number_div (Fin 2) (Vec2_width (size_of t ctx))),
                   finite_number (number_div (Fin 2) (Vec2_height (size_of t ctx)))) of
               (Some sx, Some sy) \<Rightarrow>
                 Some (merge (merge (merge (transform (fields t)) (Transform_scale (Vec2 sx sy)))
                         (Transform_translate (Vec2 (- 1) (- 1))))
                         (if flipY (fields t) then Transform_scale (Vec2 1 (- 1)) else Transform_identity))
             | _ \<Rightarrow> None)
   \<and> Vec2_transform p (merge (merge (merge (transform (fields t)) (Transform_scale (Vec2 kx ky)))
                     (Transform_translate (Vec2 (- 1) (- 1))))
                     (if flipY (fields t) then Transform_scale (Vec2 1 (- 1)) else Transform_identity))
     = Vec2_transform (Vec2_transform (Vec2_transform (Vec2_transform p (transform (fields t)))
           (Transform_scale (Vec2 kx ky)))
           (Transform_translate (Vec2 (- 1) (- 1))))
           (if flipY (fields t) then Transform_scale (Vec2 1 (- 1)) else Transform_identity)"
proof -
  have "draw t model ctx = model (draw_transform t (use t ctx)) (use t ctx)"
    by (simp add: draw_def Let_def)
  moreover have "draw_transform t (use t ctx) =
       (if Vec2_width (size_of t ctx) = Fin 0 \<or> Vec2_height (size_of t ctx) = Fin 0 then None
        else case (finite_number (number_div (Fin 2) (Vec2_width (size_of t ctx))),
                   finite_number (number_div (Fin 2) (Vec2_height (size_of t ctx)))) of
               (Some sx, Some sy) \<Rightarrow>
                 Some (merge (merge (merge (transform (fields t)) (Transform_scale (Vec2 sx sy)))
                         (Transform_translate (Vec2 (- 1) (- 1))))
                         (if flipY (fields t) then Transform_scale (Vec2 1 (- 1)) else Transform_identity))
             | _ \<Rightarrow> None)"
  proof (cases "Vec2_width (size_of t ctx) = Fin 0 \<or> Vec2_height (size_of t ctx) = Fin 0")
    case True
    then show ?thesis
      using draw_transform_zero [of t ctx] by (simp add: draw_transform_use)
  next
    case False
    then show ?thesis
      by (simp only: draw_transform_use) (simp add: draw_transform_chain)
  qed
  ultimately show ?thesis
    by (simp only: Vec2_transform_merge simp_thms)
qed

section \<open>The flip correction\<close>

text \<open>
  A canvas target of 100 by 50 pixels (its \<open>flipY\<close> is set) and the rectangle from
  \<open>(0, 0.1)\<close> to \<open>(10, 0.2)\<close>, the binary64 numbers nearest to one and two tenths. The
  flip gives the rectangle from \<open>(0, 49.8)\<close> to \<open>(10, 49.9)\<close>, each difference rounded;
  the flip of that has top \<open>0.10000000000000142\<close> and bottom \<open>0.20000000000000284\<close>,
  and is not the rectangle the flips began with.
\<close>

theorem flipRect_involution_counterexample:
  "flipRect (OfCanvas CanvasDrawTarget_new) \<lparr>canvas = Canvas 100 50, gl = []\<rparr>
     (Rect (Vec2 (Fin 0) (Fin (3602879701896397 / 2 ^ 55)))
           (Vec2 (Fin 10) (Fin (3602879701896397 / 2 ^ 54))))
     = Rect (Vec2 (Fin 0) (Fin (3504363460047667 / 2 ^ 46)))
            (Vec2 (Fin 10) (Fin (7022800668930867 / 2 ^ 47)))
   \<and> flipRect (OfCanvas CanvasDrawTarget_new) \<lparr>canvas = Canvas 100 50, gl = []\<rparr>
       (flipRect (OfCanvas CanvasDrawTarget_new) \<lparr>canvas = Canvas 100 50, gl = []\<rparr>
         (Rect (Vec2 (Fin 0) (Fin (3602879701896397 / 2 ^ 55)))
               (Vec2 (Fin 10) (Fin (3602879701896397 / 2 ^ 54)))))
     = Rect (Vec2 (Fin 0) (Fin (14073748835533 / 2 ^ 47)))
            (Vec2 (Fin 10) (Fin (14073748835533 / 2 ^ 46)))
   \<and> flipRect (OfCanvas CanvasDrawTarget_new) \<lparr>canvas = Canvas 100 50, gl = []\<rparr>
       (flipRect (OfCanvas CanvasDrawTarget_new) \<lparr>canvas = Canvas 100 50, gl = []\<rparr>
         (Rect (Vec2 (Fin 0) (Fin (3602879701896397 / 2 ^ 55)))
               (Vec2 (Fin 10) (Fin (3602879701896397 / 2 ^ 54)))))
     \<noteq> Rect (Vec2 (Fin 0) (Fin (3602879701896397 / 2 ^ 55)))
            (Vec2 (Fin 10) (Fin (3602879701896397 / 2 ^ 54)))"
  by (simp add: fields_def DrawTarget.truncate_def CanvasDrawTarget_new_def TextureDrawTarget_new_def set_texture_def size_of_def CanvasDrawTarget_size_def TextureDrawTarget_size_def mask_of_def intersection_def intBounding_def flipRect_def Vec2_floor_def Vec2_ceil_def Vec2_height_def Vec2_width_def Rect_left_def Rect_top_def Rect_right_def Rect_bottom_def Rect_width_def Rect_height_def number_max_def number_min_def binary64_eval)

text \<open>
  Claim C4, where the flip is exact. For every target with \<open>flipY\<close> set and height
  \<open>h\<close>, and every rectangle \<open>R\<close> whose top and bottom are binary64 numbers such that the
  differences of \<open>h\<close> with them are binary64 numbers too, so that neither subtraction of
  the flip rounds, flipping twice gives \<open>R\<close> back. That is so whenever the height, the
  top and the bottom are integers small enough for their differences to be below
  \<open>2^53\<close> in magnitude.
\<close>

theorem flipRect_involution:
  assumes "flipY (fields t)"
    and "Vec2_height (size_of t ctx) = Fin h"
    and "Rect_top R = Fin tp" and "Rect_bottom R = Fin bt"
    and "rnd tp = Fin tp" and "rnd bt = Fin bt"
    and "rnd (h - tp) = Fin (h - tp)" and "rnd (h - bt) = Fin (h - bt)"
  shows "flipRect t ctx (flipRect t ctx R) = R"
  using assms
  by (cases R; cases "topLeft R"; cases "bottomRight R")
     (simp add: flipRect_def Let_def Rect_left_def Rect_right_def Rect_top_def Rect_bottom_def)

text \<open>
  A new canvas target on a canvas of 100 by 50 pixels: the rectangle from \<open>(90, 0)\<close> to
  \<open>(120, 10)\<close> flips to the one from \<open>(90, 40)\<close> to \<open>(120, 50)\<close>, and back.
\<close>

theorem flipRect_involution_witness:
  "flipRect (OfCanvas CanvasDrawTarget_new) \<lparr>canvas = Canvas 100 50, gl = []\<rparr>
     (flipRect (OfCanvas CanvasDrawTarget_new) \<lparr>canvas = Canvas 100 50, gl = []\<rparr>
        (Rect (Vec2 (Fin 90) (Fin 0)) (Vec2 (Fin 120) (Fin 10))))
     = Rect (Vec2 (Fin 90) (Fin 0)) (Vec2 (Fin 120) (Fin 10))
   \<and> flipRect (OfCanvas CanvasDrawTarget_new) \<lparr>canvas = Canvas 100 50, gl = []\<rparr>
        (Rect (Vec2 (Fin 90) (Fin 0)) (Vec2 (Fin 120) (Fin 10)))
     = Rect (Vec2 (Fin 90) (Fin 40)) (Vec2 (Fin 120) (Fin 50))"
  using flipRect_involution [of "OfCanvas CanvasDrawTarget_new" "\<lparr>canvas = Canvas 100 50, gl = []\<rparr>"
      50 "Rect (Vec2 (Fin 90) (Fin 0)) (Vec2 (Fin 120) (Fin 10))" 0 10]
  by (simp add: fields_def DrawTarget.truncate_def CanvasDrawTarget_new_def TextureDrawTarget_new_def set_texture_def size_of_def CanvasDrawTarget_size_def TextureDrawTarget_size_def mask_of_def intersection_def intBounding_def flipRect_def Vec2_floor_def Vec2_ceil_def Vec2_height_def Vec2_width_def Rect_left_def Rect_top_def Rect_right_def Rect_bottom_def Rect_width_def Rect_height_def number_max_def number_min_def rnd_small_integers)

section \<open>The scenario of a scissor rectangle that overhangs the right edge\<close>

text \<open>
  Claim C5. A target of size \<open>(100, 50)\<close> with the scissor rectangle of origin
  \<open>(90, 0)\<close>, width 30 and height 10, that is from \<open>(90, 0)\<close> to \<open>(120, 10)\<close>:
  without flip the scissor box set by \<^verbatim>\<open>use\<close> is \<open>(90, 0, 10, 10)\<close>; with flip the
  flipped rectangle has top 40 and bottom 50 and the box is \<open>(90, 40, 10, 10)\<close>.
\<close>

theorem scissor_scenario:
  assumes "size_of t ctx = Vec2 (Fin 100) (Fin 50)"
    and "scissor (fields t) = Some (Rect (Vec2 (Fin 90) (Fin 0)) (Vec2 (Fin 120) (Fin 10)))"
  shows "(\<not> flipY (fields t) \<longrightarrow>
            scissor_box (gl (use t ctx)) = Some (Fin 90, Fin 0, Fin 10, Fin 10))
       \<and> (flipY (fields t) \<longrightarrow>
            Rect_top (flipRect t ctx (Rect (Vec2 (Fin 90) (Fin 0)) (Vec2 (Fin 120) (Fin 10)))) = Fin 40
          \<and> Rect_bottom (flipRect t ctx (Rect (Vec2 (Fin 90) (Fin 0)) (Vec2 (Fin 120) (Fin 10)))) = Fin 50
          \<and> scissor_box (gl (use t ctx)) = Some (Fin 90, Fin 40, Fin 10, Fin 10))"
proof -
  have flip: "flipY (fields t) \<Longrightarrow>
      flipRect t ctx (Rect (Vec2 (Fin 90) (Fin 0)) (Vec2 (Fin 120) (Fin 10)))
        = Rect (Vec2 (Fin 90) (Fin 40)) (Vec2 (Fin 120) (Fin 50))"
    by (simp add: flipRect_def assms(1) Let_def Vec2_height_def Rect_left_def Rect_right_def
        Rect_top_def Rect_bottom_def rnd_small_integers)
  have noflip: "\<not> flipY (fields t) \<Longrightarrow>
      flipRect t ctx (Rect (Vec2 (Fin 90) (Fin 0)) (Vec2 (Fin 120) (Fin 10)))
        = Rect (Vec2 (Fin 90) (Fin 0)) (Vec2 (Fin 120) (Fin 10))"
    by (simp add: flipRect_def)
  have m1: "mask_of (intersection (intBounding (Rect (Vec2 (Fin 90) (Fin 0)) (Vec2 (Fin 120) (Fin 10))))
              (Rect (Vec2 (Fin 0) (Fin 0)) (Vec2 (Fin 100) (Fin 50)))) = (Fin 90, Fin 0, Fin 10, Fin 10)"
    by (simp add: mask_of_def intersection_def intBounding_def Vec2_floor_def Vec2_ceil_def
        Rect_left_def Rect_top_def Rect_right_def Rect_bottom_def Rect_width_def Rect_height_def
        number_max_def number_min_def Let_def rnd_small_integers)
  have m2: "mask_of (intersection (intBounding (Rect (Vec2 (Fin 90) (Fin 40)) (Vec2 (Fin 120) (Fin 50))))
              (Rect (Vec2 (Fin 0) (Fin 0)) (Vec2 (Fin 100) (Fin 50)))) = (Fin 90, Fin 40, Fin 10, Fin 10)"
    by (simp add: mask_of_def intersection_def intBounding_def Vec2_floor_def Vec2_ceil_def
        Rect_left_def Rect_top_def Rect_right_def Rect_bottom_def Rect_width_def Rect_height_def
        number_max_def number_min_def Let_def rnd_small_integers)
  have box: "scissor_box (gl (use t ctx)) =
      Some (mask_of (intersection
              (intBounding (flipRect t ctx (Rect (Vec2 (Fin 90) (Fin 0)) (Vec2 (Fin 120) (Fin 10)))))
              (Rect (Vec2 (Fin 0) (Fin 0)) (Vec2 (Fin 100) (Fin 50)))))"
    by (simp add: use_scissor_box [OF assms(2)] assms(1))
  show ?thesis
    by (simp add: box flip noflip m1 m2 Rect_top_def Rect_bottom_def)
qed

text \<open>
  Both halves at concrete targets: a canvas target (flip on) on a canvas of 100 by 50
  pixels, and a texture target (flip off) constructed on a texture of size \<open>(100, 50)\<close>.
\<close>

theorem scissor_scenario_witness:
  "scissor_box (gl (use (OfCanvas (CanvasDrawTarget_new\<lparr>scissor :=
        Some (Rect (Vec2 (Fin 90) (Fin 0)) (Vec2 (Fin 120) (Fin 10)))\<rparr>))
      \<lparr>canvas = Canvas 100 50, gl = []\<rparr>)) = Some (Fin 90, Fin 40, Fin 10, Fin 10)
   \<and> scissor_box (gl (use (OfTexture ((fst (TextureDrawTarget_new 1
          (Some (Texture (Vec2 (Fin 100) (Fin 50)) ''byte'' ''rgba'' 2))
          \<lparr>canvas = Canvas 300 150, gl = []\<rparr>))\<lparr>scissor :=
        Some (Rect (Vec2 (Fin 90) (Fin 0)) (Vec2 (Fin 120) (Fin 10)))\<rparr>))
      \<lparr>canvas = Canvas 300 150, gl = []\<rparr>)) = Some (Fin 90, Fin 0, Fin 10, Fin 10)"
  using scissor_scenario [of "OfCanvas (CanvasDrawTarget_new\<lparr>scissor :=
        Some (Rect (Vec2 (Fin 90) (Fin 0)) (Vec2 (Fin 120) (Fin 10)))\<rparr>)"
      "\<lparr>canvas = Canvas 100 50, gl = []\<rparr>"]
    scissor_scenario [of "OfTexture ((fst (TextureDrawTarget_new 1
          (Some (Texture (Vec2 (Fin 100) (Fin 50)) ''byte'' ''rgba'' 2))
          \<lparr>canvas = Canvas 300 150, gl = []\<rparr>))\<lparr>scissor :=
        Some (Rect (Vec2 (Fin 90) (Fin 0)) (Vec2 (Fin 120) (Fin 10)))\<rparr>)"
      "\<lparr>canvas = Canvas 300 150, gl = []\<rparr>"]
  by (simp add: fields_def DrawTarget.truncate_def CanvasDrawTarget_new_def TextureDrawTarget_new_def set_texture_def size_of_def CanvasDrawTarget_size_def TextureDrawTarget_size_def)

section \<open>The texture of a texture target\<close>

text \<open>
  Claim C6. For every texture target, after a texture is assigned to \<^verbatim>\<open>texture\<close> the
  target's size, pixel type and pixel format are the texture's; after the empty value is
  assigned its size is \<open>(0, 0)\<close>, its pixel type "byte" and its pixel format "rgba".
\<close>

theorem set_texture_readback:
  "TextureDrawTarget_size (fst (set_texture t (Some tx) ctx)) = Texture_size tx
   \<and> TextureDrawTarget_pixelType (fst (set_texture t (Some tx) ctx)) = Texture_pixelType tx
   \<and> TextureDrawTarget_pixelFormat (fst (set_texture t (Some tx) ctx)) = Texture_pixelFormat tx
   \<and> TextureDrawTarget_size (fst (set_texture t None ctx)) = Vec2 (Fin 0) (Fin 0)
   \<and> TextureDrawTarget_pixelType (fst (set_texture t None ctx)) = ''byte''
   \<and> TextureDrawTarget_pixelFormat (fst (set_texture t None ctx)) = ''rgba''"
  by (simp add: set_texture_def TextureDrawTarget_size_def TextureDrawTarget_pixelType_def
      TextureDrawTarget_pixelFormat_def)

text \<open>
  A texture target constructed on a texture has issued three calls: the creation of its
  framebuffer, the binding of the framebuffer and the attachment of the texture. Assigning
  the empty value to its \<^verbatim>\<open>texture\<close> afterwards issues no call at all: the device log is
  the same three calls, so the framebuffer is neither bound nor given a new attachment.
\<close>

theorem set_texture_empty_counterexample:
  "gl (snd (TextureDrawTarget_new 1 (Some (Texture (Vec2 (Fin 100) (Fin 50)) ''byte'' ''rgba'' 2))
        \<lparr>canvas = Canvas 300 150, gl = []\<rparr>))
     = [gl_createFramebuffer 1, gl_bindFramebuffer FRAMEBUFFER (Some 1),
        gl_framebufferTexture2D FRAMEBUFFER COLOR_ATTACHMENT0 TEXTURE_2D 2 0]
   \<and> gl (snd (set_texture
        (fst (TextureDrawTarget_new 1 (Some (Texture (Vec2 (Fin 100) (Fin 50)) ''byte'' ''rgba'' 2))
           \<lparr>canvas = Canvas 300 150, gl = []\<rparr>))
        None
        (snd (TextureDrawTarget_new 1 (Some (Texture (Vec2 (Fin 100) (Fin 50)) ''byte'' ''rgba'' 2))
           \<lparr>canvas = Canvas 300 150, gl = []\<rparr>))))
     = [gl_createFramebuffer 1, gl_bindFramebuffer FRAMEBUFFER (Some 1),
        gl_framebufferTexture2D FRAMEBUFFER COLOR_ATTACHMENT0 TEXTURE_2D 2 0]"
  by (simp add: TextureDrawTarget_new_def set_texture_def issue_def)

text \<open>
  Claim C7, with the guard of the setter. For every texture target, every assignment of a
  texture to \<^verbatim>\<open>texture\<close> binds the target's framebuffer and attaches the storage of the
  new texture to it at level 0, in this order and with no other call; an assignment of
  the empty value leaves the context as it is. Either assignment stores the new value and
  keeps the framebuffer.
\<close>

theorem set_texture_binding:
  "gl (snd (set_texture t (Some tx) ctx)) =
     gl ctx @ [gl_bindFramebuffer FRAMEBUFFER (Some (framebuffer t)),
               gl_framebufferTexture2D FRAMEBUFFER COLOR_ATTACHMENT0 TEXTURE_2D (Texture_texture tx) 0]
   \<and> snd (set_texture t None ctx) = ctx
   \<and> texture (fst (set_texture t v ctx)) = v
   \<and> framebuffer (fst (set_texture t v ctx)) = framebuffer t"
  by (simp add: set_texture_def gl_issue)

section \<open>Disposal\<close>

text \<open>
  Claim C8. Disposing a texture target issues exactly one call, the deletion of its
  framebuffer, and nothing else: no call concerns the attached texture, and the canvas is
  untouched. Disposing a canvas target leaves the context as it is. The model of neither
  method has a failure, as the source has none.
\<close>

theorem dispose_effect:
  "gl (dispose (OfTexture x) ctx) = gl ctx @ [gl_deleteFramebuffer (framebuffer x)]
   \<and> canvas (dispose (OfTexture x) ctx) = canvas ctx
   \<and> dispose (OfCanvas c) ctx = ctx"
  by (simp add: dispose_def TextureDrawTarget_dispose_def DrawTarget_dispose_def gl_issue canvas_issue)

section \<open>The flip correction without flip, and the extent of a flipped rectangle\<close>

text \<open>
  Claim C9. For every target whose \<open>flipY\<close> is not set and every rectangle \<open>R\<close>, the
  flip correction returns \<open>R\<close>.
\<close>

theorem flipRect_noflip:
  assumes "\<not> flipY (fields t)"
  shows "flipRect t ctx R = R"
  using assms by (simp add: flipRect_def)

text \<open>A texture target as its constructor leaves it: \<open>flipY\<close> is not set.\<close>

theorem flipRect_noflip_witness:
  "flipRect (OfTexture (fst (TextureDrawTarget_new 1
        (Some (Texture (Vec2 (Fin 100) (Fin 50)) ''byte'' ''rgba'' 2))
        \<lparr>canvas = Canvas 300 150, gl = []\<rparr>))) \<lparr>canvas = Canvas 300 150, gl = []\<rparr>
     (Rect (Vec2 (Fin 90) (Fin 0)) (Vec2 (Fin 120) (Fin 10)))
     = Rect (Vec2 (Fin 90) (Fin 0)) (Vec2 (Fin 120) (Fin 10))"
  using flipRect_noflip [of "OfTexture (fst (TextureDrawTarget_new 1
        (Some (Texture (Vec2 (Fin 100) (Fin 50)) ''byte'' ''rgba'' 2))
        \<lparr>canvas = Canvas 300 150, gl = []\<rparr>))" "\<lparr>canvas = Canvas 300 150, gl = []\<rparr>"
      "Rect (Vec2 (Fin 90) (Fin 0)) (Vec2 (Fin 120) (Fin 10))"]
  by (simp add: fields_def DrawTarget.truncate_def TextureDrawTarget_new_def set_texture_def)

text \<open>
  The canvas target of 100 by 50 pixels and the rectangle from \<open>(0, 0.1)\<close> to
  \<open>(10, 0.2)\<close> again. The height of the rectangle is \<open>0.1\<close>; the height of its flip,
  the difference of the rounded \<open>49.9\<close> and \<open>49.8\<close>, is \<open>0.10000000000000142\<close>, and
  that is the height \<^verbatim>\<open>readPixels\<close> asks the device for.
\<close>

theorem flipRect_extent_counterexample:
  "Rect_height (Rect (Vec2 (Fin 0) (Fin (3602879701896397 / 2 ^ 55)))
                     (Vec2 (Fin 10) (Fin (3602879701896397 / 2 ^ 54))))
     = Fin (3602879701896397 / 2 ^ 55)
   \<and> Rect_height (flipRect (OfCanvas CanvasDrawTarget_new) \<lparr>canvas = Canvas 100 50, gl = []\<rparr>
        (Rect (Vec2 (Fin 0) (Fin (3602879701896397 / 2 ^ 55)))
              (Vec2 (Fin 10) (Fin (3602879701896397 / 2 ^ 54)))))
     = Fin (14073748835533 / 2 ^ 47)
   \<and> Fin (14073748835533 / 2 ^ 47) \<noteq> Fin (3602879701896397 / 2 ^ 55)
   \<and> last (gl (readPixels (OfCanvas CanvasDrawTarget_new)
        (Rect (Vec2 (Fin 0) (Fin (3602879701896397 / 2 ^ 55)))
              (Vec2 (Fin 10) (Fin (3602879701896397 / 2 ^ 54))))
        0 (ReadPixelsOpts None None) \<lparr>canvas = Canvas 100 50, gl = []\<rparr>))
     = gl_readPixels (Fin 0) (Fin (3504363460047667 / 2 ^ 46)) (Fin 10)
         (Fin (14073748835533 / 2 ^ 47)) ''rgba'' ''byte'' 0"
proof -
  let ?T = "OfCanvas CanvasDrawTarget_new"
  let ?C = "\<lparr>canvas = Canvas 100 50, gl = []\<rparr>"
  let ?R = "Rect (Vec2 (Fin 0) (Fin (3602879701896397 / 2 ^ 55)))
                 (Vec2 (Fin 10) (Fin (3602879701896397 / 2 ^ 54)))"
  let ?F = "Rect (Vec2 (Fin 0) (Fin (3504363460047667 / 2 ^ 46)))
                 (Vec2 (Fin 10) (Fin (7022800668930867 / 2 ^ 47)))"
  have f: "flipRect ?T ?C ?R = ?F"
    by (simp add: fields_def DrawTarget.truncate_def CanvasDrawTarget_new_def size_of_def
        CanvasDrawTarget_size_def flipRect_def Vec2_height_def Rect_left_def Rect_top_def
        Rect_right_def Rect_bottom_def binary64_eval)
  have h0: "Rect_height ?R = Fin (3602879701896397 / 2 ^ 55)"
    by (simp add: Rect_height_def Rect_top_def Rect_bottom_def binary64_eval)
  have h1: "Rect_height ?F = Fin (14073748835533 / 2 ^ 47)"
    by (simp add: Rect_height_def Rect_top_def Rect_bottom_def binary64_eval)
  have w1: "Rect_width ?F = Fin 10"
    by (simp add: Rect_width_def Rect_left_def Rect_right_def rnd_small_integers)
  have l: "last (gl (readPixels ?T ?R 0 (ReadPixelsOpts None None) ?C)) =
      gl_readPixels (Rect_left (flipRect ?T ?C ?R)) (Rect_top (flipRect ?T ?C ?R))
        (Rect_width (flipRect ?T ?C ?R)) (Rect_height (flipRect ?T ?C ?R)) ''rgba'' ''byte'' 0"
    by (simp add: readPixels_def Let_def gl_issue flipRect_use pixelFormat_of_def
        pixelType_of_def or_default_def CanvasDrawTarget_new_def)
  have ne: "Fin (14073748835533 / 2 ^ 47) \<noteq> Fin (3602879701896397 / 2 ^ 55)"
    by simp
  show ?thesis
    by (simp only: l f h0 h1 w1 ne) (simp add: Rect_left_def Rect_top_def)
qed

text \<open>
  Claim C10, where the flip is exact. For every target, with or without flip, and every
  rectangle \<open>R\<close>, the flip correction keeps the left and right sides and with them the
  width of \<open>R\<close>. It keeps the height of \<open>R\<close> when \<open>flipY\<close> is not set, and when it is
  set and the two differences of the target's height with the top and the bottom of \<open>R\<close>
  are binary64 numbers, so that the flip does not round (as for integers below \<open>2^53\<close>).
  The one \<^verbatim>\<open>gl.readPixels\<close> that \<^verbatim>\<open>readPixels\<close> issues after \<^verbatim>\<open>use\<close> asks for the width of
  \<open>R\<close> and the height of the flipped rectangle.
\<close>

theorem flipRect_preserves_extent:
  "Rect_width (flipRect t ctx R) = Rect_width R
   \<and> (\<not> flipY (fields t) \<longrightarrow> Rect_height (flipRect t ctx R) = Rect_height R)
   \<and> (Vec2_height (size_of t ctx) = Fin h \<and> Rect_top R = Fin tp \<and> Rect_bottom R = Fin bt
        \<and> rnd (h - tp) = Fin (h - tp) \<and> rnd (h - bt) = Fin (h - bt)
      \<longrightarrow> Rect_height (flipRect t ctx R) = Rect_height R)
   \<and> gl (readPixels t R data opts ctx) =
       gl (use t ctx) @
       [gl_readPixels (Rect_left R) (Rect_top (flipRect t ctx R))
          (Rect_width R) (Rect_height (flipRect t ctx R))
          (or_default (opts_format opts) (pixelFormat_of t))
          (or_default (opts_type opts) (pixelType_of t)) data]"
proof -
  have w: "Rect_width (flipRect t ctx R) = Rect_width R"
    by (simp add: Rect_width_def flipRect_sides)
  have n: "\<not> flipY (fields t) \<longrightarrow> Rect_height (flipRect t ctx R) = Rect_height R"
    by (simp add: flipRect_def)
  have e: "Vec2_height (size_of t ctx) = Fin h \<and> Rect_top R = Fin tp \<and> Rect_bottom R = Fin bt
        \<and> rnd (h - tp) = Fin (h - tp) \<and> rnd (h - bt) = Fin (h - bt)
      \<longrightarrow> Rect_height (flipRect t ctx R) = Rect_height R"
  proof (cases "flipY (fields t)")
    case True
    show ?thesis
      by (simp add: Rect_height_def flipRect_flipped [OF True])
  next
    case False
    then show ?thesis by (simp add: flipRect_def)
  qed
  have r: "gl (readPixels t R data opts ctx) =
       gl (use t ctx) @
       [gl_readPixels (Rect_left R) (Rect_top (flipRect t ctx R))
          (Rect_width R) (Rect_height (flipRect t ctx R))
          (or_default (opts_format opts) (pixelFormat_of t))
          (or_default (opts_type opts) (pixelType_of t)) data]"
    by (simp add: readPixels_def Let_def gl_issue flipRect_use w flipRect_sides)
  from w n e r show ?thesis by blast
qed

text \<open>
  A new canvas target on a canvas of 100 by 50 pixels and the rectangle from \<open>(90, 0)\<close>
  to \<open>(120, 10)\<close>: the flip keeps the width 30 and the height 10.
\<close>

theorem flipRect_preserves_extent_witness:
  "Rect_width (flipRect (OfCanvas CanvasDrawTarget_new) \<lparr>canvas = Canvas 100 50, gl = []\<rparr>
      (Rect (Vec2 (Fin 90) (Fin 0)) (Vec2 (Fin 120) (Fin 10)))) = Fin 30
   \<and> Rect_height (flipRect (OfCanvas CanvasDrawTarget_new) \<lparr>canvas = Canvas 100 50, gl = []\<rparr>
      (Rect (Vec2 (Fin 90) (Fin 0)) (Vec2 (Fin 120) (Fin 10)))) = Fin 10"
  using flipRect_preserves_extent [of "OfCanvas CanvasDrawTarget_new"
      "\<lparr>canvas = Canvas 100 50, gl = []\<rparr>" "Rect (Vec2 (Fin 90) (Fin 0)) (Vec2 (Fin 120) (Fin 10))"
      50 0 10 0 "ReadPixelsOpts None None"]
  by (simp add: fields_def DrawTarget.truncate_def CanvasDrawTarget_new_def TextureDrawTarget_new_def set_texture_def size_of_def CanvasDrawTarget_size_def TextureDrawTarget_size_def Vec2_height_def Rect_top_def Rect_bottom_def Rect_left_def Rect_right_def
      Rect_width_def Rect_height_def binary64_eval)

end
